theory Spec2Isabelle
  imports Complex_Main "HOL-Library.Word" "HOL-Library.Sublist"
begin

section \<open>JavaScript strings\<close>

text \<open>
  A JavaScript string is a finite sequence of 16-bit code units; \<open>length\<close>, indexing,
  \<open>startsWith\<close> and \<open>substring\<close> all count code units. \<open>str\<close> embeds an ASCII literal.
  A string is truthy exactly when it is not empty.
\<close>

type_synonym code_unit = "16 word"
type_synonym jsstring = "code_unit list"

definition str :: "string \<Rightarrow> jsstring" where
  "str s = map (\<lambda>c. of_nat (of_char c)) s"

text \<open>
  \<open>String.prototype.trim\<close> and \<open>trimStart\<close> remove the code units that ECMAScript
  classes as WhiteSpace or LineTerminator.
\<close>

definition isWhiteSpace :: "code_unit \<Rightarrow> bool" where
  "isWhiteSpace c = (c \<in> set [0x0009, 0x000A, 0x000B, 0x000C, 0x000D, 0x0020, 0x00A0, 0x1680,
     0x2000, 0x2001, 0x2002, 0x2003, 0x2004, 0x2005, 0x2006, 0x2007, 0x2008, 0x2009, 0x200A,
     0x2028, 0x2029, 0x202F, 0x205F, 0x3000, 0xFEFF])"

definition trimStart :: "jsstring \<Rightarrow> jsstring" where
  "trimStart s = dropWhile isWhiteSpace s"

definition trimEnd :: "jsstring \<Rightarrow> jsstring" where
  "trimEnd s = rev (dropWhile isWhiteSpace (rev s))"

definition trim :: "jsstring \<Rightarrow> jsstring" where
  "trim s = trimEnd (trimStart s)"

definition startsWith :: "jsstring \<Rightarrow> jsstring \<Rightarrow> bool" where
  "startsWith s searchString = (take (length searchString) s = searchString)"

definition endsWith :: "jsstring \<Rightarrow> jsstring \<Rightarrow> bool" where
  "endsWith s searchString =
     (length searchString \<le> length s \<and> drop (length s - length searchString) s = searchString)"

text \<open>
  \<open>s.substring(start, end)\<close>: both indices are clamped to \<open>[0, s.length]\<close> and swapped when
  \<open>start > end\<close>. \<open>s.substring(start)\<close> takes \<open>end = s.length\<close>.
\<close>

definition substring :: "jsstring \<Rightarrow> int \<Rightarrow> int \<Rightarrow> jsstring" where
  "substring s start endIndex =
     (let len = int (length s);
          finalStart = min (max start 0) len;
          finalEnd = min (max endIndex 0) len;
          fromIndex = min finalStart finalEnd;
          toIndex = max finalStart finalEnd
      in take (nat (toIndex - fromIndex)) (drop (nat fromIndex) s))"

definition substringFrom :: "jsstring \<Rightarrow> int \<Rightarrow> jsstring" where
  "substringFrom s start = substring s start (int (length s))"

text \<open>
  \<open>s.slice(start, end)\<close>: a negative index counts from the end; an empty span gives the
  empty string.
\<close>

definition slice :: "jsstring \<Rightarrow> int \<Rightarrow> int \<Rightarrow> jsstring" where
  "slice s start endIndex =
     (let len = int (length s);
          fromIndex = (if start < 0 then max (len + start) 0 else min start len);
          toIndex = (if endIndex < 0 then max (len + endIndex) 0 else min endIndex len)
      in take (nat (toIndex - fromIndex)) (drop (nat fromIndex) s))"

section \<open>The content script: \<open>BoltVoiceAssistant\<close>\<close>

text \<open>
  What the assistant does to the page and to the outside is kept as a trace, oldest first:
  text inserted into the page's text field, calls that show or hide the notification
  (message and type; the timers that fade it out are left out), the text of the
  transcription overlay, requests to the generative-text API (key, system instruction, user
  message) and the \<open>DISCONNECT\<close> message to the background worker. The \<open>TOOL_RESULT\<close>
  message is sent at one place of the content script only, the end of \<open>handleToolCall\<close>
  (line 1500), and is what that function gives back here, apart from the trace. A value
  that a tool call yields is a string or one of the few other values that the inherited
  members of the registry return. An object of parameters has string values; where the
  source may be handed no object at all (\<open>undefined\<close>), the model has \<open>None\<close>.
  An exception carries its message; for the TypeErrors of the engine itself this is the
  wording of V8. The text field is \<open>textarea\<close>: the value of the first element that the
  selector list of \<open>getBoltTextarea\<close> and \<open>sendCommandToBolt\<close> finds (both use the same
  list), \<open>None\<close> when no element matches.
\<close>

type_synonym parameters = "(jsstring \<times> jsstring) list"

datatype jsvalue =
    JUndefined
  | JBoolean bool
  | JString jsstring
  | JParameters parameters
  | JClientTools

datatype exception = Exception (messageOf: jsstring)

datatype request = GenerateContent jsstring jsstring jsstring

datatype runtime_message = DISCONNECT

datatype tool_result = TOOL_RESULT "jsstring option" jsvalue bool

datatype effect =
    InsertText jsstring
  | ShowNotification jsstring jsstring
  | HideNotification
  | ShowTranscription jsstring
  | Fetch request
  | SendMessage runtime_message
  | ShowAgentResponse jsstring

record assistant =
  isRecording :: bool
  lastSDKText :: jsstring
  lastRawSDKText :: jsstring
  fullTranscript :: jsstring
  previousSessionText :: jsstring
  textarea :: "jsstring option"
  effects :: "effect list"

definition hideNotification :: "assistant \<Rightarrow> assistant" where
  "hideNotification this = this\<lparr>effects := effects this @ [HideNotification]\<rparr>"

definition showNotification :: "assistant \<Rightarrow> jsstring \<Rightarrow> jsstring \<Rightarrow> assistant" where
  "showNotification this message type =
     (let this1 = hideNotification this
      in this1\<lparr>effects := effects this1 @ [ShowNotification message type]\<rparr>)"

definition showTranscription :: "assistant \<Rightarrow> jsstring \<Rightarrow> assistant" where
  "showTranscription this text = this\<lparr>effects := effects this @ [ShowTranscription text]\<rparr>"

text \<open>
  \<open>sendCommandToBolt(command, append)\<close> (content script, lines 1377 to 1405): select all of
  the field and insert the final text, which replaces the field's value; warn when there is
  no field. The parameter \<open>append\<close> is \<open>appendFlag\<close> here.
\<close>

definition sendCommandToBolt :: "assistant \<Rightarrow> jsstring \<Rightarrow> bool \<Rightarrow> assistant" where
  "sendCommandToBolt this command appendFlag =
     (case textarea this of
        Some inputValue \<Rightarrow>
          (let finalText = (if appendFlag \<and> inputValue \<noteq> [] then inputValue @ str '' '' @ command
                            else command)
           in this\<lparr>textarea := Some finalText, effects := effects this @ [InsertText finalText]\<rparr>)
      | None \<Rightarrow>
          showNotification this (str ''Could not find input field to send command'')
            (str ''warning''))"

subsection \<open>\<open>handleTranscription\<close>\<close>

text \<open>
  \<open>handleTranscription\<close> is lines 1105 to 1166 of the content script; its parts come first.
  The loop that counts the common prefix (lines 1139 to 1144): \<open>i\<close> runs from 0 while \<open>i < minLen\<close>, counting
  equal code units and leaving at the first difference. \<open>minLen\<close> is at most either length,
  so both reads are in range.
\<close>

function commonLenLoop :: "jsstring \<Rightarrow> jsstring \<Rightarrow> nat \<Rightarrow> nat \<Rightarrow> nat \<Rightarrow> nat" where
  "commonLenLoop lastText cleanText minLen i commonLen =
     (if i < minLen
      then (if lastText ! i = cleanText ! i
            then commonLenLoop lastText cleanText minLen (Suc i) (Suc commonLen)
            else commonLen)
      else commonLen)"
  by pat_completeness auto
termination
  by (relation "measure (\<lambda>(lastText, cleanText, minLen, i, commonLen). minLen - i)") auto

definition commonPrefixLen :: "jsstring \<Rightarrow> jsstring \<Rightarrow> nat" where
  "commonPrefixLen lastText cleanText =
     commonLenLoop lastText cleanText (min (length lastText) (length cleanText)) 0 0"

text \<open>
  The previous session's text is stripped from the front of every fragment that starts
  with it (lines 1117 to 1121).
\<close>

definition stripPreviousSession :: "jsstring \<Rightarrow> jsstring \<Rightarrow> jsstring" where
  "stripPreviousSession previousText text =
     (if previousText \<noteq> [] \<and> startsWith text previousText
      then trimStart (substringFrom text (int (length previousText)))
      else text)"

text \<open>
  The accumulation step (lines 1130 to 1157), on the stripped fragment. The test
  \<open>commonLen > lastSDKText.length * 0.3\<close> is a comparison of doubles in the source; it is
  taken here over the reals. The two agree for every string the engine can hold: when the
  length is a multiple of ten the double product is the exact integer, and otherwise the
  exact product is at least a tenth away from every integer while the rounding error of the
  product is below \<open>10\<^sup>-\<^sup>6\<close> for lengths under \<open>2\<^sup>3\<^sup>0\<close>.
\<close>

definition accumulate :: "jsstring \<Rightarrow> jsstring \<Rightarrow> jsstring \<Rightarrow> jsstring" where
  "accumulate lastText transcript cleanText =
     (if lastText = [] then cleanText
      else if startsWith cleanText lastText
      then transcript @ substringFrom cleanText (int (length lastText))
      else
        (let commonLen = commonPrefixLen lastText cleanText
         in if real commonLen > real (length lastText) * 0.3
            then (let oldTailLen = int (length lastText) - int commonLen
                  in substring transcript 0 (int (length transcript) - oldTailLen)
                       @ substringFrom cleanText (int commonLen))
            else transcript @ str '' '' @ cleanText))"

definition handleTranscription :: "assistant \<Rightarrow> jsstring \<Rightarrow> bool \<Rightarrow> assistant" where
  "handleTranscription this text isFinal =
     (if \<not> isRecording this then this
      else if text \<noteq> [] \<and> trim text \<noteq> []
      then
        (let cleanText = stripPreviousSession (previousSessionText this) text
         in if cleanText \<noteq> [] \<and> trim cleanText \<noteq> []
            then
              (let this1 = this\<lparr>lastRawSDKText := text\<rparr>;
                   this2 = this1\<lparr>fullTranscript :=
                             accumulate (lastSDKText this1) (fullTranscript this1) cleanText\<rparr>;
                   this3 = this2\<lparr>lastSDKText := cleanText\<rparr>;
                   this4 = sendCommandToBolt this3 (fullTranscript this3) False
               in showTranscription this4 (fullTranscript this4))
            else this)
      else this)"

subsection \<open>\<open>stopRecording\<close> and the events that interleave with a tool call\<close>

text \<open>
  \<open>stopRecording\<close> (lines 804 to 912), on the fields of the model: the flag is cleared first, the last raw
  fragment becomes the stored text of the previous session, the transcript fields are
  reset, the background is told to disconnect and a notification is shown. The release of
  the audio devices and of the playback queue touches none of these fields.
\<close>

definition stopRecording :: "assistant \<Rightarrow> assistant" where
  "stopRecording this =
     (let this1 = this\<lparr>isRecording := False\<rparr>;
          this2 = (if lastRawSDKText this1 \<noteq> []
                   then this1\<lparr>previousSessionText := lastRawSDKText this1\<rparr> else this1);
          this3 = this2\<lparr>lastSDKText := [], fullTranscript := [], lastRawSDKText := []\<rparr>;
          this4 = this3\<lparr>effects := effects this3 @ [SendMessage DISCONNECT]\<rparr>
      in showNotification this4 (str ''Voice assistant deactivated'') (str ''info''))"

text \<open>
  An \<open>async\<close> handler gives up control at each \<open>await\<close>; the events handled meanwhile are
  listed in the environment of the call.
\<close>

datatype event = Transcription jsstring bool | StopRecording

fun handleEvent :: "assistant \<Rightarrow> event \<Rightarrow> assistant" where
  "handleEvent this (Transcription text isFinal) = handleTranscription this text isFinal"
| "handleEvent this StopRecording = stopRecording this"

fun handleEvents :: "assistant \<Rightarrow> event list \<Rightarrow> assistant" where
  "handleEvents this [] = this"
| "handleEvents this (e # es) = handleEvents (handleEvent this e) es"

subsection \<open>\<open>executeImprovePrompt\<close>\<close>

text \<open>
  The response of the generative-text API, as far as the handler reads it: the fetch may
  reject; otherwise the response has \<open>ok\<close> and \<open>statusText\<close>, and \<open>response.json()\<close>
  either rejects or gives the body. Of an error body the handler reads
  \<open>error.error?.message\<close> (\<open>None\<close>: absent or falsy); of a success body it reads
  \<open>candidates[0].content.parts[0].text\<close>, every field of which may be absent.
\<close>

datatype part = Part (partText: "jsstring option")
datatype content = Content (contentParts: "part list option")
datatype candidate = Candidate (candidateContent: "content option")

datatype fetch_outcome =
    FetchRejected exception
  | NotOk "exception + jsstring option" jsstring
  | Ok "exception + candidate list option"

text \<open>
  The environment of one call: the key held by \<open>chrome.storage.sync\<close> (\<open>None\<close>: not set),
  the outcome of the request, and the events handled during the two waits.
\<close>

record env =
  geminiApiKey :: "jsstring option"
  geminiResponse :: fetch_outcome
  duringStorage :: "event list"
  duringFetch :: "event list"

definition improveSystemInstruction :: jsstring where
  "improveSystemInstruction =
     str ''You are an expert at writing prompts for bolt.new, an AI-powered full-stack web development platform. Your job is to improve user prompts to be more specific, detailed, and effective for building web applications.''
     @ [0x000A]
     @ [0x000A]
     @ str ''IMPORTANT: You must respond ONLY in English, regardless of the input language.''
     @ [0x000A]
     @ [0x000A]
     @ str ''When improving prompts:''
     @ [0x000A]
     @ str ''- Be structured and detailed in your response, use paragraphs and bullet points to make it easy to read and understand.''
     @ [0x000A]
     @ str ''- Be specific about technology choices (React, Vue, Node.js, etc.)''
     @ [0x000A]
     @ str ''- Include clear feature descriptions''
     @ [0x000A]
     @ str ''- Specify UI/UX requirements''
     @ [0x000A]
     @ str ''- Add technical details like state management, API endpoints, database structure if relevant''
     @ [0x000A]
     @ str ''- Describe both the front-end and back-end on what to build and how to build it (bolt.new handles implementation)''
     @ [0x000A]
     @ str ''- DO NOT say anything like \"Here is your prompt improved...\" or something like that. Just return the improved prompt.''
     @ [0x000A]
     @ [0x000A]
     @ str ''Return ONLY the improved prompt text in ENGLISH, nothing else.''"

definition improveUserPrompt :: "jsstring \<Rightarrow> jsstring option \<Rightarrow> jsstring" where
  "improveUserPrompt actualPrompt user_idea =
     str ''Please improve this bolt.new prompt (respond in ENGLISH only):'' @ [0x000A, 0x000A]
     @ str ''\"'' @ actualPrompt @ str ''\"'' @ [0x000A, 0x000A]
     @ (case user_idea of
          None \<Rightarrow> []
        | Some idea \<Rightarrow> if idea \<noteq> [] then str ''User's additional guidance: '' @ idea else [])"

text \<open>The \<open>catch\<close> block of the handler (lines 1616 to 1620).\<close>

definition improveCatch :: "assistant \<Rightarrow> exception \<Rightarrow> (exception + jsvalue) \<times> assistant" where
  "improveCatch this error =
     (Inr (JString (str ''Sorry, something went wrong while improving your prompt: ''
                      @ messageOf error)),
      hideNotification this)"

text \<open>
  \<open>data.candidates[0].content.parts[0].text.trim()\<close> (line 1593) after the three checks on
  \<open>candidates\<close>, \<open>candidates[0]\<close> and \<open>content\<close>: a missing \<open>parts\<close>, an empty \<open>parts\<close> or a
  missing \<open>text\<close> raises a TypeError.
\<close>

definition firstPartText :: "content \<Rightarrow> exception + jsstring" where
  "firstPartText c =
     (case contentParts c of
        None \<Rightarrow> Inl (Exception (str ''Cannot read properties of undefined (reading '0')''))
      | Some [] \<Rightarrow> Inl (Exception (str ''Cannot read properties of undefined (reading 'text')''))
      | Some (p # ps) \<Rightarrow>
          (case partText p of
             None \<Rightarrow> Inl (Exception (str ''Cannot read properties of undefined (reading 'trim')''))
           | Some t \<Rightarrow> Inr (trim t)))"

text \<open>
  Lines 1595 to 1599: a reply wrapped in double quotes (code unit \<open>0x22\<close>) or in single
  quotes (\<open>0x27\<close>) loses the pair.
\<close>

definition removeSurroundingQuotes :: "jsstring \<Rightarrow> jsstring" where
  "removeSurroundingQuotes improvedPrompt =
     (if (startsWith improvedPrompt [0x0022] \<and> endsWith improvedPrompt [0x0022])
         \<or> (startsWith improvedPrompt [0x0027] \<and> endsWith improvedPrompt [0x0027])
      then slice improvedPrompt 1 (- 1) else improvedPrompt)"

text \<open>
  What the handler does once the response has arrived (lines 1579 to 1620), on the state of
  that moment.
\<close>

definition improveAfterFetch ::
  "assistant \<Rightarrow> fetch_outcome \<Rightarrow> (exception + jsvalue) \<times> assistant" where
  "improveAfterFetch this response =
     (case response of
        FetchRejected error \<Rightarrow> improveCatch this error
      | NotOk body statusText \<Rightarrow>
          (case body of
             Inl error \<Rightarrow> improveCatch this error
           | Inr errorMessage \<Rightarrow>
               (Inr (JString (str ''Sorry, I got an error from Gemini: ''
                                @ (case errorMessage of Some m \<Rightarrow> m | None \<Rightarrow> statusText))),
                this))
      | Ok body \<Rightarrow>
          (case body of
             Inl error \<Rightarrow> improveCatch this error
           | Inr candidates \<Rightarrow>
               (case candidates of
                  None \<Rightarrow> (Inr (JString (str
                    ''Sorry, I got an unexpected response from Gemini. Please try again.'')), this)
                | Some [] \<Rightarrow> (Inr (JString (str
                    ''Sorry, I got an unexpected response from Gemini. Please try again.'')), this)
                | Some (Candidate None # cs) \<Rightarrow> (Inr (JString (str
                    ''Sorry, I got an unexpected response from Gemini. Please try again.'')), this)
                | Some (Candidate (Some c) # cs) \<Rightarrow>
                    (case firstPartText c of
                       Inl error \<Rightarrow> improveCatch this error
                     | Inr trimmed \<Rightarrow>
                         (let improvedPrompt = removeSurroundingQuotes trimmed;
                              this1 = sendCommandToBolt this improvedPrompt False;
                              this2 = hideNotification this1;
                              this3 = showNotification this2 (0x2705 # str '' Prompt improved!'')
                                        (str ''success'')
                          in (Inr (JString (str
       ''Done! I've improved your prompt and updated the textarea. You're ready to go!'')),
                              this3))))))"

text \<open>
  The body of the handler after its first statement (lines 1514 to 1621), for an object
  of parameters, of which only \<open>user_idea\<close> is read.
\<close>

definition improveWithParameters ::
  "env \<Rightarrow> assistant \<Rightarrow> parameters \<Rightarrow> (exception + jsvalue) \<times> assistant" where
  "improveWithParameters e this parameters =
     (let user_idea = map_of parameters (str ''user_idea'');
          this1 = showNotification this (0x23F3 # str '' Improving prompt...'') (str ''info'');
          actualPrompt = (case textarea this1 of Some v \<Rightarrow> trim v | None \<Rightarrow> [])
      in if actualPrompt = []
         then (Inr (JString (str
  ''I don't see any text in the textarea. Could you type a prompt first, then ask me to improve it?'')),
               hideNotification this1)
         else
           (let this2 = handleEvents this1 (duringStorage e)
            in if geminiApiKey e = None \<or> geminiApiKey e = Some []
               then (Inr (JString (str
  ''Oops! The Gemini API key isn't configured yet. Please set it in the extension settings.'')),
                     hideNotification this2)
               else
                 (let request = GenerateContent (the (geminiApiKey e)) improveSystemInstruction
                                  (improveUserPrompt actualPrompt user_idea);
                      this3 = this2\<lparr>effects := effects this2 @ [Fetch request]\<rparr>;
                      this4 = handleEvents this3 (duringFetch e)
                  in improveAfterFetch this4 (geminiResponse e))))"

text \<open>
  The handler (lines 1512 to 1621). Its first statement destructures \<open>parameters\<close>, which
  throws when there is no object: the relay of a \<open>client_tool_call\<close> passes \<open>{}\<close> for a
  missing one, the relay of an old-format \<open>tool_call\<close> passes it on as it is.
\<close>

definition executeImprovePrompt ::
  "env \<Rightarrow> assistant \<Rightarrow> parameters option \<Rightarrow> (exception + jsvalue) \<times> assistant" where
  "executeImprovePrompt e this parameters =
     (case parameters of
        None \<Rightarrow>
          (Inl (Exception (str
  ''Cannot destructure property 'user_idea' of 'parameters' as it is undefined.'')), this)
      | Some object \<Rightarrow> improveWithParameters e this object)"

subsection \<open>\<open>handleToolCall\<close>\<close>

text \<open>
  \<open>handleToolCall\<close> is lines 1470 to 1507 of the content script. The registry
  \<open>clientTools\<close> (lines 30 to 46) is an object literal with five own properties, so
  \<open>Object.keys\<close> lists these five in order, while the lookup \<open>this.clientTools[toolName]\<close>
  also finds what the object inherits from \<open>Object.prototype\<close>.
\<close>

definition clientToolsKeys :: "jsstring list" where
  "clientToolsKeys = [str ''improve_prompt'', str ''create_prompt'', str ''update_prompt'',
     str ''analyze_ui'', str ''suggest_next_steps'']"

definition objectPrototypeKeys :: "jsstring list" where
  "objectPrototypeKeys = [str ''constructor'', str ''__defineGetter__'', str ''__defineSetter__'',
     str ''hasOwnProperty'', str ''__lookupGetter__'', str ''__lookupSetter__'',
     str ''isPrototypeOf'', str ''propertyIsEnumerable'', str ''toString'', str ''valueOf'',
     str ''__proto__'', str ''toLocaleString'']"

text \<open>
  The four other handlers are parameters of the model: each takes the parameters, if any,
  and the state and returns or throws.
\<close>

record tools =
  executeCreatePrompt :: "parameters option \<Rightarrow> assistant \<Rightarrow> (exception + jsvalue) \<times> assistant"
  executeUpdatePrompt :: "parameters option \<Rightarrow> assistant \<Rightarrow> (exception + jsvalue) \<times> assistant"
  executeAnalyzeUI :: "parameters option \<Rightarrow> assistant \<Rightarrow> (exception + jsvalue) \<times> assistant"
  executeSuggestNextSteps :: "parameters option \<Rightarrow> assistant \<Rightarrow> (exception + jsvalue) \<times> assistant"

text \<open>
  Calling an inherited member as \<open>this.clientTools[toolName](parameters)\<close>, with the
  registry as receiver and the parameters as the one argument. A parameters object with
  string values is turned into a property key through its inherited \<open>toString\<close>, unless
  it has an own \<open>toString\<close>, which is then not callable; \<open>undefined\<close> becomes the key
  \<open>undefined\<close>. \<open>Object(undefined)\<close> is a new empty object.
\<close>

definition toPropertyKey :: "parameters option \<Rightarrow> exception + jsstring" where
  "toPropertyKey parameters =
     (case parameters of
        None \<Rightarrow> Inr (str ''undefined'')
      | Some object \<Rightarrow>
          if map_of object (str ''toString'') \<noteq> None
          then Inl (Exception (str ''Cannot convert object to primitive value''))
          else Inr (str ''[object Object]''))"

definition callObjectPrototype :: "jsstring \<Rightarrow> parameters option \<Rightarrow> exception + jsvalue" where
  "callObjectPrototype name parameters =
     (if name = str ''constructor''
      then Inr (JParameters (case parameters of None \<Rightarrow> [] | Some object \<Rightarrow> object))
      else if name = str ''toString'' \<or> name = str ''toLocaleString''
      then Inr (JString (str ''[object Object]''))
      else if name = str ''valueOf'' then Inr JClientTools
      else if name = str ''isPrototypeOf'' then Inr (JBoolean False)
      else if name = str ''hasOwnProperty'' \<or> name = str ''propertyIsEnumerable''
      then (case toPropertyKey parameters of
              Inl error \<Rightarrow> Inl error
            | Inr key \<Rightarrow> Inr (JBoolean (key \<in> set clientToolsKeys)))
      else if name = str ''__lookupGetter__'' \<or> name = str ''__lookupSetter__''
      then (case toPropertyKey parameters of
              Inl error \<Rightarrow> Inl error
            | Inr key \<Rightarrow> Inr JUndefined)
      else if name = str ''__defineGetter__''
      then Inl (Exception (str ''Object.prototype.__defineGetter__: Expecting function''))
      else if name = str ''__defineSetter__''
      then Inl (Exception (str ''Object.prototype.__defineSetter__: Expecting function''))
      else Inl (Exception (str ''this.clientTools[toolName] is not a function'')))"

definition callClientTool ::
  "env \<Rightarrow> tools \<Rightarrow> assistant \<Rightarrow> jsstring \<Rightarrow> parameters option
     \<Rightarrow> (exception + jsvalue) \<times> assistant"
  where
  "callClientTool e ts this name parameters =
     (if name = str ''improve_prompt'' then executeImprovePrompt e this parameters
      else if name = str ''create_prompt'' then executeCreatePrompt ts parameters this
      else if name = str ''update_prompt'' then executeUpdatePrompt ts parameters this
      else if name = str ''analyze_ui'' then executeAnalyzeUI ts parameters this
      else executeSuggestNextSteps ts parameters this)"

text \<open>
  \<open>Array.prototype.join\<close> on strings, and the property key and the template text of a
  tool name that may be \<open>undefined\<close>.
\<close>

fun join :: "jsstring list \<Rightarrow> jsstring \<Rightarrow> jsstring" where
  "join [] separator = []"
| "join [x] separator = x"
| "join (x # y # ys) separator = x @ separator @ join (y # ys) separator"

definition toDisplayString :: "jsstring option \<Rightarrow> jsstring" where
  "toDisplayString v = (case v of None \<Rightarrow> str ''undefined'' | Some s \<Rightarrow> s)"

text \<open>
  The function gives back the state and the one \<open>TOOL_RESULT\<close> message that its last
  statement sends, on every path.
\<close>

definition handleToolCall ::
  "env \<Rightarrow> tools \<Rightarrow> assistant \<Rightarrow> jsstring option \<Rightarrow> jsstring option \<Rightarrow> parameters option
     \<Rightarrow> assistant \<times> tool_result"
  where
  "handleToolCall e ts this toolName toolCallId parameters =
     (let name = toDisplayString toolName;
          (result, success, this1) =
            (if name \<in> set clientToolsKeys \<or> name \<in> set objectPrototypeKeys
             then
               (case (if name \<in> set clientToolsKeys
                      then callClientTool e ts this name parameters
                      else (callObjectPrototype name parameters, this)) of
                  (Inr value, this') \<Rightarrow> (value, True, this')
                | (Inl error, this') \<Rightarrow>
                    (JString (str ''Error executing '' @ name @ str '': '' @ messageOf error),
                     False, this'))
             else
               (JString (str ''Unknown tool: '' @ name @ str ''. Available tools: ''
                           @ join clientToolsKeys (str '', '')),
                False, this))
      in (this1, TOOL_RESULT toolCallId result success))"

section \<open>The background service worker\<close>

text \<open>
  The module state of \<open>background.js\<close> that the relay of agent messages reads or writes.
  \<open>forwardedToolCalls\<close> is a JavaScript \<open>Set\<close>: a list without repeats in insertion order.
  \<open>websocket\<close> is \<open>None\<close> for \<open>null\<close> and otherwise the socket's \<open>readyState\<close>.
\<close>

datatype readyState = CONNECTING | OPEN | CLOSING | CLOSED

record background =
  websocket :: "readyState option"
  toolsRegistered :: bool
  forwardedToolCalls :: "jsstring option list"
  conversationId :: "jsstring option"
  agentOutputAudioFormat :: "jsstring option"
  currentTabId :: "nat option"

definition setHas :: "'a list \<Rightarrow> 'a \<Rightarrow> bool" where
  "setHas s x = (x \<in> set s)"

definition setAdd :: "'a list \<Rightarrow> 'a \<Rightarrow> 'a list" where
  "setAdd s x = (if x \<in> set s then s else s @ [x])"

text \<open>
  A tool-call event as it is read from the message: each of \<open>tool_name\<close>, \<open>tool_call_id\<close>
  and \<open>parameters\<close> may be absent.
\<close>

record tool_call_event =
  tool_name :: "jsstring option"
  tool_call_id :: "jsstring option"
  event_parameters :: "parameters option"

text \<open>
  What the worker emits: messages to the content script of the current tab, and frames on
  the socket. The result in a \<open>client_tool_response\<close> frame is the string itself when the
  result is a string, and otherwise the JSON text of the value, kept here as
  \<open>Stringified\<close> of that value.
\<close>

datatype tab_message =
    TOOL_CALL "jsstring option" "jsstring option" "parameters option"
  | AGENT_AUDIO jsstring "jsstring option" "jsstring option"
  | AGENT_RESPONSE "jsstring option" "jsstring option"
  | USER_TRANSCRIPT jsstring "jsstring option"
  | CONNECTION_CLOSED nat

datatype frame_result = Verbatim jsstring | Stringified jsvalue

datatype socket_frame =
    ToolRegistration
  | Pong "jsstring option"
  | ClientToolResponse "jsstring option" frame_result

datatype emitted = ToTab tab_message | ToSocket socket_frame

text \<open>
  The parsed agent message, by its \<open>type\<close>. \<open>Unparsable\<close> is a frame on which
  \<open>JSON.parse\<close> throws; \<open>OtherType\<close> covers the types that are only logged.
\<close>

datatype agent_message =
    ConversationInitiationMetadata "(jsstring option \<times> jsstring option) option"
  | Audio "(jsstring option \<times> jsstring option) option"
  | Interruption
  | Ping "jsstring option"
  | AgentResponse "(jsstring option \<times> jsstring option \<times> jsstring option) option"
  | UserTranscript "(jsstring option \<times> jsstring option) option"
  | ToolCall "tool_call_event option"
  | ClientToolCall tool_call_event
  | OtherType
  | Unparsable

definition truthy :: "jsstring option \<Rightarrow> bool" where
  "truthy v = (case v of None \<Rightarrow> False | Some s \<Rightarrow> s \<noteq> [])"

definition notifyContentScript :: "background \<Rightarrow> tab_message \<Rightarrow> emitted list" where
  "notifyContentScript bg m =
     (if currentTabId bg = None \<or> currentTabId bg = Some 0 then [] else [ToTab m])"

text \<open>
  \<open>websocket.send\<close>: a TypeError on \<open>null\<close>, an InvalidStateError while connecting, a frame
  on an open socket, and nothing once the socket is closing or closed.
\<close>

definition websocketSend :: "background \<Rightarrow> socket_frame \<Rightarrow> exception + emitted list" where
  "websocketSend bg frame =
     (case websocket bg of
        None \<Rightarrow> Inl (Exception (str ''Cannot read properties of null (reading 'send')''))
      | Some CONNECTING \<Rightarrow> Inl (Exception (str ''Still in CONNECTING state.''))
      | Some OPEN \<Rightarrow> Inr [ToSocket frame]
      | Some CLOSING \<Rightarrow> Inr []
      | Some CLOSED \<Rightarrow> Inr [])"

text \<open>
  \<open>handleAgentMessage\<close> (\<open>background.js\<close>, lines 616 to 823): the \<open>switch\<close> on the message type inside one \<open>try\<close>, whose
  \<open>catch\<close> only logs. It returns the new state and what was emitted.
\<close>

fun handleAgentMessage :: "background \<Rightarrow> agent_message \<Rightarrow> background \<times> emitted list" where
  "handleAgentMessage bg (ConversationInitiationMetadata metadata) =
     (case metadata of
        None \<Rightarrow> (bg, [])
      | Some (conversation_id, agent_output_audio_format) \<Rightarrow>
          (let bg1 = bg\<lparr>conversationId := conversation_id,
                         agentOutputAudioFormat := agent_output_audio_format\<rparr>
           in if \<not> toolsRegistered bg1
              then (case websocketSend bg1 ToolRegistration of
                      Inl error \<Rightarrow> (bg1, [])
                    | Inr sent \<Rightarrow> (bg1\<lparr>toolsRegistered := True\<rparr>, sent))
              else (bg1, [])))"
| "handleAgentMessage bg (Audio audioEvent) =
     (case audioEvent of
        Some (Some audio_base_64, event_id) \<Rightarrow>
          (bg, if audio_base_64 \<noteq> []
               then notifyContentScript bg
                      (AGENT_AUDIO audio_base_64 event_id (agentOutputAudioFormat bg))
               else [])
      | _ \<Rightarrow> (bg, []))"
| "handleAgentMessage bg Interruption = (bg, [])"
| "handleAgentMessage bg (Ping event_id) =
     (if websocket bg = Some OPEN then (bg, [ToSocket (Pong event_id)]) else (bg, []))"
| "handleAgentMessage bg (AgentResponse responseEvent) =
     (case responseEvent of
        Some (response, text, event_id) \<Rightarrow>
          (bg, notifyContentScript bg
                 (AGENT_RESPONSE (if truthy response then response else text) event_id))
      | None \<Rightarrow> (bg, []))"
| "handleAgentMessage bg (UserTranscript transcript) =
     (case transcript of
        Some (Some user_transcript, event_id) \<Rightarrow>
          (bg, if user_transcript \<noteq> []
               then notifyContentScript bg (USER_TRANSCRIPT user_transcript event_id)
               else [])
      | _ \<Rightarrow> (bg, []))"
| "handleAgentMessage bg (ToolCall toolCallEvent) =
     (case toolCallEvent of
        None \<Rightarrow> (bg, [])
      | Some ev \<Rightarrow>
          if truthy (tool_call_id ev)
          then (if setHas (forwardedToolCalls bg) (tool_call_id ev) then (bg, [])
                else (bg\<lparr>forwardedToolCalls := setAdd (forwardedToolCalls bg) (tool_call_id ev)\<rparr>,
                      notifyContentScript bg
                        (TOOL_CALL (tool_name ev) (tool_call_id ev) (event_parameters ev))))
          else (bg, []))"
| "handleAgentMessage bg (ClientToolCall toolCallData) =
     (if setHas (forwardedToolCalls bg) (tool_call_id toolCallData) then (bg, [])
      else (bg\<lparr>forwardedToolCalls := setAdd (forwardedToolCalls bg) (tool_call_id toolCallData)\<rparr>,
            notifyContentScript bg
              (TOOL_CALL (tool_name toolCallData) (tool_call_id toolCallData)
                 (Some (case event_parameters toolCallData of Some p \<Rightarrow> p | None \<Rightarrow> [])))))"
| "handleAgentMessage bg OtherType = (bg, [])"
| "handleAgentMessage bg Unparsable = (bg, [])"

text \<open>The messages of one session, handled in arrival order.\<close>

fun handleAgentMessages :: "background \<Rightarrow> agent_message list \<Rightarrow> background \<times> emitted list" where
  "handleAgentMessages bg [] = (bg, [])"
| "handleAgentMessages bg (m # ms) =
     (let (bg1, out1) = handleAgentMessage bg m;
          (bg2, out2) = handleAgentMessages bg1 ms
      in (bg2, out1 @ out2))"

text \<open>
  The socket's \<open>onclose\<close> handler (lines 349 to 382), which ends the session: an unexpected close code is
  reported to the content script and the tracking state is reset.
\<close>

definition onclose :: "background \<Rightarrow> nat \<Rightarrow> background \<times> emitted list" where
  "onclose bg code =
     (bg\<lparr>websocket := None, toolsRegistered := False, forwardedToolCalls := []\<rparr>,
      if code \<noteq> 1000 then notifyContentScript bg (CONNECTION_CLOSED code) else [])"

text \<open>
  \<open>sendToolResult\<close> (lines 558 to 611), called for each \<open>TOOL_RESULT\<close> message of the
  content script with the fields of the message. Nothing goes out unless the socket is
  open. On an open socket the frame is built and sent inside a \<open>try\<close>; for a result that
  is \<open>undefined\<close> the line that logs a preview of it throws before the send, and the
  \<open>catch\<close> only logs. The flag \<open>success\<close> is logged and not sent.
\<close>

definition sendToolResult ::
  "background \<Rightarrow> jsstring option \<Rightarrow> jsvalue \<Rightarrow> bool \<Rightarrow> emitted list" where
  "sendToolResult bg toolCallId result success =
     (if websocket bg \<noteq> Some OPEN then []
      else (case result of
              JString s \<Rightarrow> [ToSocket (ClientToolResponse toolCallId (Verbatim s))]
            | JUndefined \<Rightarrow> []
            | _ \<Rightarrow> [ToSocket (ClientToolResponse toolCallId (Stringified result))]))"

text \<open>
  The \<open>DISCONNECT\<close> case of the worker's message listener (lines 66 to 96): an open socket
  is closed and forgotten. The set of forwarded ids is left as it is; \<open>onclose\<close> empties
  it.
\<close>

definition handleDisconnect :: "background \<Rightarrow> background" where
  "handleDisconnect bg = (if websocket bg = Some OPEN then bg\<lparr>websocket := None\<rparr> else bg)"

section \<open>The two contexts together\<close>

text \<open>
  The content script's message listener (lines 965 to 1056), for the messages that the
  relay of agent messages sends to the tab. A \<open>TOOL_CALL\<close> runs \<open>handleToolCall\<close> with the
  fields of the message; a user transcript is shown in the overlay and an agent response
  in its panel when the text is not blank; audio playback and the notice of a closed
  connection touch no field of the model. None of the other cases sends a \<open>TOOL_RESULT\<close>.
\<close>

fun messageListener ::
  "env \<Rightarrow> tools \<Rightarrow> assistant \<Rightarrow> tab_message \<Rightarrow> assistant \<times> tool_result list" where
  "messageListener e ts this (TOOL_CALL toolName toolCallId parameters) =
     (let (this1, sent) = handleToolCall e ts this toolName toolCallId parameters
      in (this1, [sent]))"
| "messageListener e ts this (USER_TRANSCRIPT text eventId) =
     (if text \<noteq> [] \<and> trim text \<noteq> [] then showTranscription this text else this, [])"
| "messageListener e ts this (AGENT_RESPONSE text eventId) =
     (case text of
        Some t \<Rightarrow>
          if t \<noteq> [] \<and> trim t \<noteq> []
          then this\<lparr>effects := effects this @ [ShowAgentResponse t]\<rparr> else this
      | None \<Rightarrow> this, [])"
| "messageListener e ts this (AGENT_AUDIO audioBase64 eventId audioFormat) = (this, [])"
| "messageListener e ts this (CONNECTION_CLOSED code) = (this, [])"

text \<open>
  The worker and the content script share no memory and exchange messages only. A session
  is a sequence of four kinds of step: the socket delivers an agent message to the worker;
  the content script handles the next message sent to the tab, in the environment of that
  handler run; the worker handles the next \<open>TOOL_RESULT\<close>; the worker handles a
  \<open>DISCONNECT\<close>. The state holds the two contexts, for each direction the messages sent
  so far and how many of them have been handled, and the frames put on the socket so far.
  The run of a handler in the tab is one step; what the content script handles during the
  waits of an \<open>async\<close> handler is in the environment of the step.
\<close>

record system =
  worker :: background
  script :: assistant
  sentToTab :: "tab_message list"
  handledInTab :: nat
  sentToWorker :: "tool_result list"
  handledInWorker :: nat
  socketOut :: "socket_frame list"

datatype action =
    Receive agent_message
  | HandleInTab env
  | HandleInWorker
  | Disconnect

definition tabMessages :: "emitted list \<Rightarrow> tab_message list" where
  "tabMessages out = concat (map (\<lambda>x. case x of ToTab m \<Rightarrow> [m] | ToSocket f \<Rightarrow> []) out)"

definition socketFrames :: "emitted list \<Rightarrow> socket_frame list" where
  "socketFrames out = concat (map (\<lambda>x. case x of ToTab m \<Rightarrow> [] | ToSocket f \<Rightarrow> [f]) out)"

fun step :: "tools \<Rightarrow> system \<Rightarrow> action \<Rightarrow> system" where
  "step ts s (Receive m) =
     (let (bg, out) = handleAgentMessage (worker s) m
      in s\<lparr>worker := bg, sentToTab := sentToTab s @ tabMessages out,
            socketOut := socketOut s @ socketFrames out\<rparr>)"
| "step ts s (HandleInTab e) =
     (if handledInTab s < length (sentToTab s)
      then (let (this, sent) = messageListener e ts (script s) (sentToTab s ! handledInTab s)
            in s\<lparr>script := this, handledInTab := Suc (handledInTab s),
                  sentToWorker := sentToWorker s @ sent\<rparr>)
      else s)"
| "step ts s HandleInWorker =
     (if handledInWorker s < length (sentToWorker s)
      then (case sentToWorker s ! handledInWorker s of
              TOOL_RESULT toolCallId result success \<Rightarrow>
                s\<lparr>handledInWorker := Suc (handledInWorker s),
                  socketOut := socketOut s
                    @ socketFrames (sendToolResult (worker s) toolCallId result success)\<rparr>)
      else s)"
| "step ts s Disconnect = s\<lparr>worker := handleDisconnect (worker s)\<rparr>"

fun run :: "tools \<Rightarrow> system \<Rightarrow> action list \<Rightarrow> system" where
  "run ts s [] = s"
| "run ts s (a # as) = run ts (step ts s a) as"


section \<open>Observations used in the statements\<close>

text \<open>
  \<open>forwardsCall i\<close> holds of an emitted message that hands the tool call with id \<open>i\<close> to
  the content script. \<open>recordedIds\<close> lists the id that an agent message puts into
  \<open>forwardedToolCalls\<close>: the id of a \<open>client_tool_call\<close>, and the id of a \<open>tool_call\<close>
  when it is truthy. Of the messages and the frames sent, \<open>callsFor i\<close>,
  \<open>resultsFor i\<close> and \<open>responsesFor i\<close> keep the tool calls, the tool results and the
  \<open>client_tool_response\<close> frames that carry the id \<open>i\<close>. \<open>requestsMade\<close> lists the requests
  to the generative-text API in the trace.
\<close>

definition forwardsCall :: "jsstring option \<Rightarrow> emitted \<Rightarrow> bool" where
  "forwardsCall i out = (case out of ToTab (TOOL_CALL n j p) \<Rightarrow> j = i | _ \<Rightarrow> False)"

fun recordedIds :: "agent_message \<Rightarrow> jsstring option list" where
  "recordedIds (ToolCall (Some ev)) = (if truthy (tool_call_id ev) then [tool_call_id ev] else [])"
| "recordedIds (ClientToolCall toolCallData) = [tool_call_id toolCallData]"
| "recordedIds m = []"



definition responsesFor :: "jsstring option \<Rightarrow> socket_frame list \<Rightarrow> socket_frame list" where
  "responsesFor i fs = filter (\<lambda>f. case f of ClientToolResponse j v \<Rightarrow> j = i | _ \<Rightarrow> False) fs"


definition requestsMade :: "assistant \<Rightarrow> request list" where
  "requestsMade this = concat (map (\<lambda>x. case x of Fetch r \<Rightarrow> [r] | _ \<Rightarrow> []) (effects this))"




section \<open>Properties of the string operations\<close>

lemma dropWhile_all_iff: "(\<forall>x \<in> set (dropWhile P s). P x) \<longleftrightarrow> (\<forall>x \<in> set s. P x)"
proof
  assume a: "\<forall>x \<in> set (dropWhile P s). P x"
  have "dropWhile P s = []"
  proof (rule ccontr)
    assume n: "dropWhile P s \<noteq> []"
    then have "\<not> P (hd (dropWhile P s))" by (rule hd_dropWhile)
    moreover have "hd (dropWhile P s) \<in> set (dropWhile P s)" using n by simp
    ultimately show False using a by blast
  qed
  then show "\<forall>x \<in> set s. P x" by (simp add: dropWhile_eq_Nil_conv)
next
  assume "\<forall>x \<in> set s. P x"
  then show "\<forall>x \<in> set (dropWhile P s). P x" by (meson set_dropWhileD)
qed

lemma trim_Nil_iff: "trim s = [] \<longleftrightarrow> (\<forall>c \<in> set s. isWhiteSpace c)"
  by (simp add: trim_def trimEnd_def trimStart_def dropWhile_eq_Nil_conv dropWhile_all_iff)

lemma trim_nonempty: "trim s \<noteq> [] \<Longrightarrow> s \<noteq> []"
  by (auto simp: trim_Nil_iff)

lemma substringFrom_drop: "substringFrom s (int n) = drop n s"
  by (simp add: substringFrom_def substring_def Let_def min_def max_def)


lemma startsWith_append: "startsWith (p @ rest) p"
  by (simp add: startsWith_def)

section \<open>The transcript reconciler\<close>

subsection \<open>The common prefix loop and the accumulation step\<close>

text \<open>
  The loop computes the length of the longest common prefix of the two fragments, here
  stated against \<open>longest_common_prefix\<close> of the list library.
\<close>

declare commonLenLoop.simps [simp del]




lemma accumulate_growth:
  "lastText \<noteq> [] \<Longrightarrow> accumulate lastText T (lastText @ rest) = T @ rest"
  by (simp add: accumulate_def startsWith_append substringFrom_drop)



lemma accumulate_same: "accumulate c T c = (if c = [] then [] else T)"
  by (simp add: accumulate_def startsWith_def substringFrom_drop)

subsection \<open>\<open>handleTranscription\<close> as a whole\<close>

lemma fullTranscript_sendCommandToBolt [simp]:
  "fullTranscript (sendCommandToBolt this c a) = fullTranscript this"
  by (simp add: sendCommandToBolt_def showNotification_def hideNotification_def Let_def
      split: option.splits)

lemma lastSDKText_sendCommandToBolt [simp]:
  "lastSDKText (sendCommandToBolt this c a) = lastSDKText this"
  by (simp add: sendCommandToBolt_def showNotification_def hideNotification_def Let_def
      split: option.splits)

lemma isRecording_sendCommandToBolt [simp]:
  "isRecording (sendCommandToBolt this c a) = isRecording this"
  by (simp add: sendCommandToBolt_def showNotification_def hideNotification_def Let_def
      split: option.splits)

lemma lastRawSDKText_sendCommandToBolt [simp]:
  "lastRawSDKText (sendCommandToBolt this c a) = lastRawSDKText this"
  by (simp add: sendCommandToBolt_def showNotification_def hideNotification_def Let_def
      split: option.splits)

lemma previousSessionText_sendCommandToBolt [simp]:
  "previousSessionText (sendCommandToBolt this c a) = previousSessionText this"
  by (simp add: sendCommandToBolt_def showNotification_def hideNotification_def Let_def
      split: option.splits)

lemma strip_blank:
  assumes "trim (stripPreviousSession p text) \<noteq> []"
  shows "trim text \<noteq> []"
proof (cases "p \<noteq> [] \<and> startsWith text p")
  case True
  then have "stripPreviousSession p text = dropWhile isWhiteSpace (drop (length p) text)"
    by (simp add: stripPreviousSession_def trimStart_def substringFrom_drop)
  with assms obtain c where "c \<in> set (dropWhile isWhiteSpace (drop (length p) text))"
    "\<not> isWhiteSpace c"
    by (auto simp: trim_Nil_iff)
  then have "c \<in> set text" by (meson set_dropWhileD in_set_dropD)
  with \<open>\<not> isWhiteSpace c\<close> show ?thesis by (auto simp: trim_Nil_iff)
next
  case False
  then have "stripPreviousSession p text = text" by (auto simp: stripPreviousSession_def)
  with assms show ?thesis by simp
qed


lemma handleTranscription_processed:
  assumes "isRecording this" "trim (stripPreviousSession (previousSessionText this) text) \<noteq> []"
  shows "fullTranscript (handleTranscription this text isFinal) =
           accumulate (lastSDKText this) (fullTranscript this)
             (stripPreviousSession (previousSessionText this) text)"
    and "lastSDKText (handleTranscription this text isFinal) =
           stripPreviousSession (previousSessionText this) text"
    and "isRecording (handleTranscription this text isFinal)"
    and "previousSessionText (handleTranscription this text isFinal) = previousSessionText this"
    and "lastRawSDKText (handleTranscription this text isFinal) = text"
  using assms strip_blank [OF assms(2)] trim_nonempty [OF assms(2)]
    trim_nonempty [OF strip_blank [OF assms(2)]]
  by (simp_all add: handleTranscription_def Let_def showTranscription_def)

lemma handleTranscription_ignored:
  "\<not> isRecording this \<or> trim text = [] \<or> trim (stripPreviousSession (previousSessionText this) text) = []
   \<Longrightarrow> handleTranscription this text isFinal = this"
  by (auto simp: handleTranscription_def Let_def)

text \<open>
  A fragment and its extension are stripped alike unless the extension alone begins with
  the stored text of the previous session; then the stripped extension is the stripped
  fragment and the same rest.
\<close>

lemma trimStart_append: "trimStart x \<noteq> [] \<Longrightarrow> trimStart (x @ rest) = trimStart x @ rest"
proof -
  assume "trimStart x \<noteq> []"
  then obtain c where "c \<in> set x" and "\<not> isWhiteSpace c"
    by (auto simp: trimStart_def dropWhile_eq_Nil_conv)
  then show ?thesis by (simp add: trimStart_def dropWhile_append1)
qed

lemma trimStart_head: "trimStart x \<noteq> [] \<Longrightarrow> \<not> isWhiteSpace (hd (trimStart x))"
  unfolding trimStart_def by (rule hd_dropWhile)

lemma startsWith_length: "startsWith prev p \<Longrightarrow> length p \<le> length prev"
proof -
  assume "startsWith prev p"
  then have "length (take (length p) prev) = length p" by (simp add: startsWith_def)
  then show ?thesis by simp
qed

lemma startsWith_extend: "startsWith prev p \<Longrightarrow> startsWith (prev @ rest) p"
  using startsWith_length [of prev p] by (simp add: startsWith_def)

lemma strip_append:
  assumes ne: "stripPreviousSession p prev \<noteq> []"
    and alike: "p = [] \<or> \<not> startsWith (prev @ rest) p \<or> startsWith prev p"
  shows "stripPreviousSession p (prev @ rest) = stripPreviousSession p prev @ rest"
proof (cases "p \<noteq> [] \<and> startsWith prev p")
  case True
  then have len: "length p \<le> length prev" by (simp add: startsWith_length)
  have both: "startsWith (prev @ rest) p" using True by (simp add: startsWith_extend)
  have s: "stripPreviousSession p prev = trimStart (drop (length p) prev)"
    using True by (simp add: stripPreviousSession_def substringFrom_drop)
  have "stripPreviousSession p (prev @ rest) = trimStart (drop (length p) prev @ rest)"
    using True both len by (simp add: stripPreviousSession_def substringFrom_drop)
  also have "\<dots> = trimStart (drop (length p) prev) @ rest"
    using ne s by (simp add: trimStart_append)
  finally show ?thesis using s by simp
next
  case False
  then have "p = [] \<or> \<not> startsWith (prev @ rest) p" using alike by blast
  then show ?thesis using False by (auto simp: stripPreviousSession_def)
qed

lemma strip_append_nonblank:
  assumes ne: "stripPreviousSession p prev \<noteq> []" and nb: "trim (prev @ rest) \<noteq> []"
  shows "trim (stripPreviousSession p prev @ rest) \<noteq> []"
proof (cases "p \<noteq> [] \<and> startsWith prev p")
  case True
  then have s: "stripPreviousSession p prev = trimStart (drop (length p) prev)"
    by (simp add: stripPreviousSession_def substringFrom_drop)
  then have "\<not> isWhiteSpace (hd (stripPreviousSession p prev))"
    using ne by (simp add: trimStart_head)
  moreover have "hd (stripPreviousSession p prev) \<in> set (stripPreviousSession p prev @ rest)"
    using ne by simp
  ultimately show ?thesis unfolding trim_Nil_iff by blast
next
  case False
  then have "stripPreviousSession p prev = prev" by (auto simp: stripPreviousSession_def)
  then show ?thesis using nb by simp
qed

text \<open>The definitions unfolded to run the reconciler on a concrete fragment.\<close>

lemmas eval_defs = handleTranscription_def stripPreviousSession_def accumulate_def
  commonPrefixLen_def commonLenLoop.simps startsWith_def substringFrom_def substring_def
  trim_def trimStart_def trimEnd_def isWhiteSpace_def str_def sendCommandToBolt_def
  showTranscription_def showNotification_def hideNotification_def Let_def

subsection \<open>Claims about the reconciler\<close>

text \<open>
  Claim C1 (growth), as stated: in every session state with a non-empty previous fragment
  \<open>prev\<close> and transcript \<open>T\<close>, a non-whitespace fragment \<open>cur = prev + rest\<close> sets the
  transcript to \<open>T + rest\<close>. The code strips the stored text of the previous session from
  the front of every fragment, not only of a session's first one, so the statement fails
  when \<open>cur\<close> begins with that text and \<open>prev\<close> does not. The state below is the one reached when the previous
  session ended on \<open>hello world\<close> and this session's first fragment was \<open>hello\<close>: the
  fragment \<open>hello world foo\<close> is cut down to \<open>foo\<close>, which no longer starts with
  \<open>hello\<close>, and is appended after a space.
\<close>

theorem reconciler_growth_counterexample:
  "fullTranscript (handleTranscription
      \<lparr>isRecording = True, lastSDKText = str ''hello'', lastRawSDKText = str ''hello'',
       fullTranscript = str ''hello'', previousSessionText = str ''hello world'',
       textarea = Some (str ''hello''), effects = []\<rparr>
      (str ''hello'' @ str '' world foo'') False) = str ''hello foo''
   \<and> str ''hello foo'' \<noteq> str ''hello'' @ str '' world foo''
   \<and> trim (str ''hello'' @ str '' world foo'') \<noteq> []"
  by (simp add: eval_defs)

text \<open>
  A delivery that is taken up leaves a state of the kind in which the amended claim C1
  is stated: the raw fragment is remembered next to its stripped text, which is not empty.
\<close>

lemma taken_up_state:
  assumes "isRecording this" "trim (stripPreviousSession (previousSessionText this) prev) \<noteq> []"
  shows "lastRawSDKText (handleTranscription this prev isFinal) = prev"
    and "lastSDKText (handleTranscription this prev isFinal) =
           stripPreviousSession (previousSessionText (handleTranscription this prev isFinal))
             (lastRawSDKText (handleTranscription this prev isFinal))"
    and "lastSDKText (handleTranscription this prev isFinal) \<noteq> []"
  using handleTranscription_processed [OF assms, of isFinal] trim_nonempty [OF assms(2)]
  by simp_all

text \<open>
  Claim C1 (growth), amended: in every recording session state whose previous raw fragment
  \<open>prev\<close> is remembered with its stripped text, not empty, and whose transcript is \<open>T\<close>, a
  non-whitespace fragment \<open>cur = prev + rest\<close> sets the transcript to \<open>T + rest\<close>, except
  when \<open>cur\<close> begins with the stored text of the previous session and \<open>prev\<close> does not.
\<close>

theorem reconciler_growth:
  assumes "isRecording this"
    and "lastSDKText this = stripPreviousSession (previousSessionText this) (lastRawSDKText this)"
    and "lastSDKText this \<noteq> []"
    and "cur = lastRawSDKText this @ rest"
    and "trim cur \<noteq> []"
    and "previousSessionText this = [] \<or> \<not> startsWith cur (previousSessionText this)
           \<or> startsWith (lastRawSDKText this) (previousSessionText this)"
  shows "fullTranscript (handleTranscription this cur isFinal) = fullTranscript this @ rest"
proof -
  have ne: "stripPreviousSession (previousSessionText this) (lastRawSDKText this) \<noteq> []"
    using assms(2,3) by simp
  have c: "stripPreviousSession (previousSessionText this) cur = lastSDKText this @ rest"
    using strip_append [OF ne, of rest] assms(2,4,6) by simp
  have "trim (lastSDKText this @ rest) \<noteq> []"
    using strip_append_nonblank [OF ne, of rest] assms(2,4,5) by simp
  then have "fullTranscript (handleTranscription this cur isFinal) =
          accumulate (lastSDKText this) (fullTranscript this) (lastSDKText this @ rest)"
    using handleTranscription_processed(1) [of this cur isFinal] assms(1) c by simp
  then show ?thesis using assms(3) by (simp add: accumulate_growth)
qed

theorem reconciler_growth_witness:
  "stripPreviousSession (str ''hello world'') (str ''hello world foo'') = str ''foo''
   \<and> trim (str ''hello world foo'' @ str '' bar'') \<noteq> []
   \<and> startsWith (str ''hello world foo'') (str ''hello world'')
   \<and> fullTranscript (handleTranscription
      \<lparr>isRecording = True, lastSDKText = str ''foo'', lastRawSDKText = str ''hello world foo'',
       fullTranscript = str ''foo'', previousSessionText = str ''hello world'',
       textarea = Some (str ''foo''), effects = []\<rparr>
      (str ''hello world foo'' @ str '' bar'') False) = str ''foo bar''"
proof -
  let ?s = "\<lparr>isRecording = True, lastSDKText = str ''foo'',
       lastRawSDKText = str ''hello world foo'',
       fullTranscript = str ''foo'', previousSessionText = str ''hello world'',
       textarea = Some (str ''foo''), effects = []\<rparr>"
  let ?cur = "str ''hello world foo'' @ str '' bar''"
  have st: "stripPreviousSession (str ''hello world'') (str ''hello world foo'') = str ''foo''"
    by (simp add: stripPreviousSession_def startsWith_def substringFrom_def substring_def
        trimStart_def isWhiteSpace_def str_def)
  have h1: "isRecording ?s" by simp
  have h2: "lastSDKText ?s = stripPreviousSession (previousSessionText ?s) (lastRawSDKText ?s)"
    using st by simp
  have h3: "lastSDKText ?s \<noteq> []" by (simp add: str_def)
  have h4: "?cur = lastRawSDKText ?s @ str '' bar''" by simp
  have h5: "trim ?cur \<noteq> []"
    by (simp add: str_def trim_def trimStart_def trimEnd_def isWhiteSpace_def)
  have sw: "startsWith (str ''hello world foo'') (str ''hello world'')"
    by (simp add: str_def startsWith_def)
  then have h6: "previousSessionText ?s = [] \<or> \<not> startsWith ?cur (previousSessionText ?s)
           \<or> startsWith (lastRawSDKText ?s) (previousSessionText ?s)" by simp
  have "fullTranscript (handleTranscription ?s ?cur False) = str ''foo bar''"
    using reconciler_growth [OF h1 h2 h3 h4 h5 h6, of False] by (simp add: str_def)
  then show ?thesis using st h5 sw by simp
qed







text \<open>
  Claim C7 (fragment no-op guard): a fragment that is empty or only whitespace, or one
  that arrives when the session is not recording, leaves the whole state as it was: the
  transcript, the previous-fragment fields, the page's text field and the trace of effects.
\<close>

theorem fragment_noop:
  assumes "\<not> isRecording this \<or> trim text = []"
  shows "handleTranscription this text isFinal = this"
  using assms by (auto simp: handleTranscription_def)

theorem fragment_noop_witness:
  "trim (str ''   '') = []
   \<and> handleTranscription
      \<lparr>isRecording = True, lastSDKText = str ''hello'', lastRawSDKText = str ''hello'',
       fullTranscript = str ''hello'', previousSessionText = [],
       textarea = Some (str ''hello''), effects = []\<rparr> (str ''   '') False
     = \<lparr>isRecording = True, lastSDKText = str ''hello'', lastRawSDKText = str ''hello'',
       fullTranscript = str ''hello'', previousSessionText = [],
       textarea = Some (str ''hello''), effects = []\<rparr>
   \<and> \<not> isRecording \<lparr>isRecording = False, lastSDKText = [], lastRawSDKText = [],
       fullTranscript = [], previousSessionText = str ''hello'',
       textarea = Some (str ''hello''), effects = []\<rparr>
   \<and> handleTranscription
      \<lparr>isRecording = False, lastSDKText = [], lastRawSDKText = [],
       fullTranscript = [], previousSessionText = str ''hello'',
       textarea = Some (str ''hello''), effects = []\<rparr> (str ''hello world'') True
     = \<lparr>isRecording = False, lastSDKText = [], lastRawSDKText = [],
       fullTranscript = [], previousSessionText = str ''hello'',
       textarea = Some (str ''hello''), effects = []\<rparr>"
  using fragment_noop [of "\<lparr>isRecording = True, lastSDKText = str ''hello'',
       lastRawSDKText = str ''hello'',
       fullTranscript = str ''hello'', previousSessionText = [],
       textarea = Some (str ''hello''), effects = []\<rparr>" "str ''   ''" False]
    fragment_noop [of "\<lparr>isRecording = False, lastSDKText = [], lastRawSDKText = [],
       fullTranscript = [], previousSessionText = str ''hello'',
       textarea = Some (str ''hello''), effects = []\<rparr>" "str ''hello world''" True]
  by (simp add: str_def trim_def trimStart_def trimEnd_def isWhiteSpace_def)

text \<open>
  Claim C10 (repeated fragment): delivering the same fragment twice in a row gives the
  transcript, and the remembered previous fragment, that delivering it once gives. When the
  first delivery was taken up, the second finds the remembered fragment equal to its own
  stripped text and the growth branch appends the empty rest; when the first was ignored,
  so is the second.
\<close>

theorem repeated_fragment_idempotent:
  "fullTranscript (handleTranscription (handleTranscription this text isFinal) text isFinal')
     = fullTranscript (handleTranscription this text isFinal)
   \<and> lastSDKText (handleTranscription (handleTranscription this text isFinal) text isFinal')
     = lastSDKText (handleTranscription this text isFinal)"
proof (cases "isRecording this \<and> trim (stripPreviousSession (previousSessionText this) text) \<noteq> []")
  case True
  let ?s = "handleTranscription this text isFinal"
  let ?c = "stripPreviousSession (previousSessionText this) text"
  have rec: "isRecording ?s" and prev: "previousSessionText ?s = previousSessionText this"
    and last: "lastSDKText ?s = ?c"
    using True handleTranscription_processed [of this "text" isFinal] by simp_all
  have ne: "?c \<noteq> []" using True trim_nonempty by blast
  have "fullTranscript (handleTranscription ?s text isFinal') =
          accumulate (lastSDKText ?s) (fullTranscript ?s) (stripPreviousSession (previousSessionText ?s) text)"
    using handleTranscription_processed(1) [of ?s "text" isFinal'] rec prev True by simp
  moreover have "lastSDKText (handleTranscription ?s text isFinal') = ?c"
    using handleTranscription_processed(2) [of ?s "text" isFinal'] rec prev True by simp
  ultimately show ?thesis using last prev ne by (simp add: accumulate_same)
next
  case False
  then have "handleTranscription this text isFinal = this"
    and "handleTranscription this text isFinal' = this"
    using handleTranscription_ignored [of this "text"] strip_blank by blast+
  then show ?thesis by simp
qed

section \<open>The relay of tool calls\<close>

subsection \<open>One message, then a session's messages\<close>


lemma notify_other [simp]:
  "filter (forwardsCall i) (notifyContentScript bg (AGENT_AUDIO a b c)) = []"
  "filter (forwardsCall i) (notifyContentScript bg (AGENT_RESPONSE r ev)) = []"
  "filter (forwardsCall i) (notifyContentScript bg (USER_TRANSCRIPT t ev)) = []"
  "filter (forwardsCall i) (notifyContentScript bg (CONNECTION_CLOSED k)) = []"
  by (simp_all add: notifyContentScript_def forwardsCall_def)



lemma message_set:
  "set (forwardedToolCalls (fst (handleAgentMessage bg m))) =
     set (forwardedToolCalls bg) \<union> set (recordedIds m)"
proof (cases m)
  case (ConversationInitiationMetadata x)
  then show ?thesis by (auto simp: Let_def split: option.splits sum.splits prod.splits)
next
  case (ToolCall x)
  then show ?thesis by (cases x) (auto simp: setHas_def setAdd_def)
next
  case (ClientToolCall x)
  then show ?thesis by (auto simp: setHas_def setAdd_def)
qed (auto split: option.splits prod.splits)




lemma run_Cons:
  "handleAgentMessages bg (m # ms) =
     (fst (handleAgentMessages (fst (handleAgentMessage bg m)) ms),
      snd (handleAgentMessage bg m) @ snd (handleAgentMessages (fst (handleAgentMessage bg m)) ms))"
  by (simp add: Let_def split: prod.splits)

lemma run_set:
  "set (forwardedToolCalls (fst (handleAgentMessages bg ms))) =
     set (forwardedToolCalls bg) \<union> set (concat (map recordedIds ms))"
proof (induction ms arbitrary: bg)
  case Nil
  then show ?case by simp
next
  case (Cons m ms)
  show ?case
    by (simp only: run_Cons fst_conv Cons.IH message_set list.map concat.simps set_append Un_assoc)
qed



subsection \<open>The session of the two contexts\<close>



lemma responsesFor_append [simp]: "responsesFor i (q @ r) = responsesFor i q @ responsesFor i r"
  by (simp add: responsesFor_def)




lemma socketFrames_simps [simp]:
  "socketFrames [] = []" "socketFrames [ToSocket f] = [f]"
  "socketFrames (notifyContentScript bg m) = []"
  by (simp_all add: notifyContentScript_def socketFrames_def)

lemma responsesFor_simps [simp]:
  "responsesFor i [] = []" "responsesFor i [Pong x] = []" "responsesFor i [ToolRegistration] = []"
  by (simp_all add: responsesFor_def)









subsection \<open>Claims about the relay\<close>


text \<open>
  Claim C8 (bounded dedup set), as stated: the set of seen ids is bounded by a fixed cap and
  evicts its oldest entries beyond it. \<open>forwardedToolCalls\<close> has no cap: a session that
  receives enough distinct ids makes it larger than any given bound.
\<close>

theorem dedup_set_bounded_counterexample:
  "\<not> (\<exists>cap. \<forall>ms. length (forwardedToolCalls (fst (handleAgentMessages
        \<lparr>websocket = Some OPEN, toolsRegistered = True, forwardedToolCalls = [],
         conversationId = None, agentOutputAudioFormat = None, currentTabId = Some 1\<rparr> ms)))
      \<le> cap)"
proof
  let ?bg = "\<lparr>websocket = Some OPEN, toolsRegistered = True, forwardedToolCalls = [],
         conversationId = None, agentOutputAudioFormat = None, currentTabId = Some 1\<rparr>"
  assume "\<exists>cap. \<forall>ms. length (forwardedToolCalls (fst (handleAgentMessages ?bg ms))) \<le> cap"
  then obtain cap where cap: "\<And>ms. length (forwardedToolCalls (fst (handleAgentMessages ?bg ms))) \<le> cap"
    by blast
  define call where "call = (\<lambda>k::nat. ClientToolCall \<lparr>tool_name = Some (str ''improve_prompt''),
      tool_call_id = Some (replicate k (0x61::code_unit)), event_parameters = None\<rparr>)"
  define ms where "ms = map call [0..<Suc cap]"
  have ids: "concat (map recordedIds ms) = map (\<lambda>k. Some (replicate k (0x61::code_unit))) [0..<Suc cap]"
    unfolding ms_def call_def by (induction cap) simp_all
  have inj: "inj (\<lambda>k::nat. Some (replicate k (0x61::code_unit)))"
    by (rule injI) (metis length_replicate option.inject)
  have "inj_on (\<lambda>k::nat. Some (replicate k (0x61::code_unit))) (set [0..<Suc cap])"
    using inj by (rule inj_on_subset) blast
  then have "distinct (map (\<lambda>k. Some (replicate k (0x61::code_unit))) [0..<Suc cap])"
    by (simp only: distinct_map distinct_upt simp_thms)
  then have "card (set (map (\<lambda>k. Some (replicate k (0x61::code_unit))) [0..<Suc cap]))
      = length (map (\<lambda>k. Some (replicate k (0x61::code_unit))) [0..<Suc cap])"
    by (rule distinct_card)
  then have "card (set (concat (map recordedIds ms))) = Suc cap"
    by (simp only: ids length_map length_upt diff_zero)
  moreover have "set (forwardedToolCalls (fst (handleAgentMessages ?bg ms))) =
      set (concat (map recordedIds ms))"
    by (simp add: run_set)
  ultimately have "card (set (forwardedToolCalls (fst (handleAgentMessages ?bg ms)))) = Suc cap"
    by simp
  then have "Suc cap \<le> length (forwardedToolCalls (fst (handleAgentMessages ?bg ms)))"
    by (metis card_length)
  with cap [of ms] show False by simp
qed

text \<open>
  Claim C8, amended: during a session nothing is removed from the set of seen ids and no
  cap applies; after any sequence of agent messages it holds what it held before together
  with every id recorded from a tool-call event. The socket's close handler empties it.
\<close>

theorem dedup_set_never_evicts:
  "set (forwardedToolCalls (fst (handleAgentMessages bg ms))) =
     set (forwardedToolCalls bg) \<union> set (concat (map recordedIds ms))
   \<and> forwardedToolCalls (fst (onclose bg code)) = []"
  by (simp add: run_set onclose_def)

section \<open>Tool dispatch in the content script\<close>

lemma toString_keys:
  "str ''toString'' \<notin> set clientToolsKeys" "str ''toString'' \<in> set objectPrototypeKeys"
  by (simp_all add: clientToolsKeys_def objectPrototypeKeys_def str_def)

text \<open>
  Claim C5 (unknown tool): a name that is not one of the five registered handlers yields
  \<open>success = false\<close> and a message listing the five names. The lookup
  \<open>this.clientTools[toolName]\<close> also finds inherited members, so the name \<open>toString\<close> is
  treated as a tool: the inherited function is called and its value is sent as a
  successful result.
\<close>

theorem inherited_name_dispatched:
  "handleToolCall e ts this (Some (str ''toString'')) toolCallId parameters =
     (this, TOOL_RESULT toolCallId (JString (str ''[object Object]'')) True)"
proof -
  have "callObjectPrototype (str ''toString'') parameters = Inr (JString (str ''[object Object]''))"
    by (simp add: callObjectPrototype_def str_def)
  then show ?thesis
    by (simp add: handleToolCall_def toDisplayString_def toString_keys)
qed

text \<open>
  For a name that is neither registered nor inherited the claim holds: no handler runs,
  the state is otherwise unchanged and the result is the failure message with the five
  names.
\<close>

lemma unknown_tool_rejected:
  assumes "toDisplayString toolName \<notin> set clientToolsKeys"
    and "toDisplayString toolName \<notin> set objectPrototypeKeys"
  shows "handleToolCall e ts this toolName toolCallId parameters =
     (this, TOOL_RESULT toolCallId
        (JString (str ''Unknown tool: '' @ toDisplayString toolName @ str ''. Available tools: ''
           @ str ''improve_prompt, create_prompt, update_prompt, analyze_ui, suggest_next_steps''))
        False)"
proof -
  have "join clientToolsKeys (str '', '') =
      str ''improve_prompt, create_prompt, update_prompt, analyze_ui, suggest_next_steps''"
    by (simp add: clientToolsKeys_def str_def)
  then show ?thesis using assms by (simp add: handleToolCall_def)
qed

text \<open>
  Claim C6 (empty-field guard): every call of the \<open>improve_prompt\<close> handler on a page
  without text field, or with a blank one, returns the message that asks for a prompt
  first and makes no request to the generative-text API. The handler destructures its
  parameters before it looks at the field. The relay of an old-format \<open>tool_call\<close> without
  parameters passes none on (the relay of a \<open>client_tool_call\<close> would pass \<open>{}\<close>), and
  the call then ends in a TypeError whatever the field holds: the result sent back is the
  error text with \<open>success = false\<close>, and the state is untouched.
\<close>

lemma improve_prompt_key: "str ''improve_prompt'' \<in> set clientToolsKeys"
  by (simp add: clientToolsKeys_def)

theorem improve_prompt_missing_parameters:
  "snd (handleAgentMessage
      \<lparr>websocket = Some OPEN, toolsRegistered = True, forwardedToolCalls = [],
       conversationId = None, agentOutputAudioFormat = None, currentTabId = Some 1\<rparr>
      (ToolCall (Some \<lparr>tool_name = Some (str ''improve_prompt''),
         tool_call_id = Some (str ''call_1''), event_parameters = None\<rparr>)))
     = [ToTab (TOOL_CALL (Some (str ''improve_prompt'')) (Some (str ''call_1'')) None)]
   \<and> messageListener e ts this
       (TOOL_CALL (Some (str ''improve_prompt'')) (Some (str ''call_1'')) None)
     = (this, [TOOL_RESULT (Some (str ''call_1''))
         (JString (str ''Error executing improve_prompt: ''
            @ str ''Cannot destructure property 'user_idea' of 'parameters' as it is undefined.''))
         False])"
proof -
  have relay: "snd (handleAgentMessage
      \<lparr>websocket = Some OPEN, toolsRegistered = True, forwardedToolCalls = [],
       conversationId = None, agentOutputAudioFormat = None, currentTabId = Some 1\<rparr>
      (ToolCall (Some \<lparr>tool_name = Some (str ''improve_prompt''),
         tool_call_id = Some (str ''call_1''), event_parameters = None\<rparr>)))
     = [ToTab (TOOL_CALL (Some (str ''improve_prompt'')) (Some (str ''call_1'')) None)]"
    by (simp add: truthy_def setHas_def notifyContentScript_def str_def)
  have prefix: "str ''Error executing '' @ str ''improve_prompt'' @ str '': ''
      = str ''Error executing improve_prompt: ''"
    by (simp add: str_def)
  have "callClientTool e ts this (str ''improve_prompt'') None
      = (Inl (Exception (str
  ''Cannot destructure property 'user_idea' of 'parameters' as it is undefined.'')), this)"
    by (simp add: callClientTool_def executeImprovePrompt_def)
  then have "handleToolCall e ts this (Some (str ''improve_prompt'')) (Some (str ''call_1'')) None
     = (this, TOOL_RESULT (Some (str ''call_1''))
         (JString (str ''Error executing improve_prompt: ''
            @ str ''Cannot destructure property 'user_idea' of 'parameters' as it is undefined.''))
         False)"
    using prefix by (simp add: handleToolCall_def toDisplayString_def improve_prompt_key)
  then show ?thesis using relay by simp
qed

text \<open>
  With an object of parameters, as every \<open>client_tool_call\<close> has, the handler does what the
  claim says: it only shows and hides its notification, and makes no request.
\<close>

lemma improve_prompt_empty_field:
  assumes "textarea this = None \<or> (textarea this = Some v \<and> trim v = [])"
  shows "executeImprovePrompt e this (Some parameters) =
     (Inr (JString (str
  ''I don't see any text in the textarea. Could you type a prompt first, then ask me to improve it?'')),
      this\<lparr>effects := effects this @ [HideNotification,
         ShowNotification (0x23F3 # str '' Improving prompt...'') (str ''info''),
         HideNotification]\<rparr>)
   \<and> requestsMade (snd (executeImprovePrompt e this (Some parameters))) = requestsMade this"
  using assms
  by (auto simp: executeImprovePrompt_def improveWithParameters_def showNotification_def
      hideNotification_def Let_def requestsMade_def)

subsection \<open>A call that outlives the session\<close>

lemma textarea_showNotification [simp]: "textarea (showNotification this m t) = textarea this"
  by (simp add: showNotification_def hideNotification_def Let_def)

lemma isRecording_showNotification [simp]: "isRecording (showNotification this m t) = isRecording this"
  by (simp add: showNotification_def hideNotification_def Let_def)

lemma textarea_hideNotification [simp]: "textarea (hideNotification this) = textarea this"
  by (simp add: hideNotification_def)

lemma isRecording_hideNotification [simp]: "isRecording (hideNotification this) = isRecording this"
  by (simp add: hideNotification_def)

lemma textarea_sendCommandToBolt:
  "textarea this = Some w \<Longrightarrow> textarea (sendCommandToBolt this command False) = Some command"
  by (simp add: sendCommandToBolt_def)

lemma textarea_sendCommandToBolt_None [simp]:
  "textarea (sendCommandToBolt this command a) = None \<longleftrightarrow> textarea this = None"
  by (simp add: sendCommandToBolt_def Let_def split: option.splits)

lemma textarea_handleTranscription [simp]:
  "textarea (handleTranscription this t f) = None \<longleftrightarrow> textarea this = None"
  by (simp add: handleTranscription_def Let_def showTranscription_def)

lemma isRecording_handleTranscription [simp]:
  "isRecording (handleTranscription this t f) = isRecording this"
  by (simp add: handleTranscription_def Let_def showTranscription_def)

lemma textarea_stopRecording [simp]: "textarea (stopRecording this) = textarea this"
  by (simp add: stopRecording_def Let_def)

lemma isRecording_stopRecording [simp]: "\<not> isRecording (stopRecording this)"
  by (simp add: stopRecording_def Let_def)

lemma textarea_handleEvents [simp]:
  "textarea (handleEvents this es) = None \<longleftrightarrow> textarea this = None"
proof (induction es arbitrary: this)
  case Nil
  then show ?case by simp
next
  case (Cons ev es)
  then show ?case by (cases ev) simp_all
qed

lemma handleEvents_stays_stopped:
  "\<not> isRecording this \<Longrightarrow> \<not> isRecording (handleEvents this es)"
proof (induction es arbitrary: this)
  case Nil
  then show ?case by simp
next
  case (Cons ev es)
  then show ?case by (cases ev) simp_all
qed

lemma handleEvents_stop:
  "StopRecording \<in> set es \<Longrightarrow> \<not> isRecording (handleEvents this es)"
proof (induction es arbitrary: this)
  case Nil
  then show ?case by simp
next
  case (Cons ev es)
  show ?case
  proof (cases "ev = StopRecording")
    case True
    then show ?thesis by (simp add: handleEvents_stays_stopped)
  next
    case False
    then have "StopRecording \<in> set es" using Cons.prems by auto
    then show ?thesis using Cons.IH by simp
  qed
qed

lemma improveAfterFetch_writes:
  assumes "textarea this = Some w"
    and "response = Ok (Inr (Some (Candidate (Some c) # cs)))"
    and "firstPartText c = Inr t"
  shows "textarea (snd (improveAfterFetch this response)) = Some (removeSurroundingQuotes t)"
    and "isRecording (snd (improveAfterFetch this response)) = isRecording this"
  using assms by (simp_all add: improveAfterFetch_def Let_def textarea_sendCommandToBolt)

text \<open>The further definitions unfolded to run the handler on a concrete call.\<close>

lemmas tool_eval_defs = executeImprovePrompt_def improveWithParameters_def improveAfterFetch_def firstPartText_def
  removeSurroundingQuotes_def improveCatch_def endsWith_def slice_def stopRecording_def

text \<open>
  Claim C9 (discard after close), as stated: the result of a generative-API call that
  completes after the session was stopped is discarded, the recording flag being consulted
  before the write. The handler consults no flag. Here the session is stopped while the
  request is in flight, and the reply still replaces the content of the text field.
\<close>

theorem discard_after_close_counterexample:
  "textarea (snd (executeImprovePrompt
        \<lparr>geminiApiKey = Some (str ''key''),
         geminiResponse = Ok (Inr (Some [Candidate (Some (Content (Some
           [Part (Some (str ''Build a todo app with React''))])))])),
         duringStorage = [], duringFetch = [StopRecording]\<rparr>
        \<lparr>isRecording = True, lastSDKText = [], lastRawSDKText = [], fullTranscript = [],
         previousSessionText = [], textarea = Some (str ''todo app''), effects = []\<rparr> (Some [])))
     = Some (str ''Build a todo app with React'')
   \<and> \<not> isRecording (snd (executeImprovePrompt
        \<lparr>geminiApiKey = Some (str ''key''),
         geminiResponse = Ok (Inr (Some [Candidate (Some (Content (Some
           [Part (Some (str ''Build a todo app with React''))])))])),
         duringStorage = [], duringFetch = [StopRecording]\<rparr>
        \<lparr>isRecording = True, lastSDKText = [], lastRawSDKText = [], fullTranscript = [],
         previousSessionText = [], textarea = Some (str ''todo app''), effects = []\<rparr> (Some [])))
   \<and> str ''Build a todo app with React'' \<noteq> str ''todo app''"
  by (simp add: eval_defs tool_eval_defs)

text \<open>
  Claim C9, amended: when the session has been stopped by the time the reply arrives
  (before the call, or while \<open>improve_prompt\<close> waits for the stored key or for the reply) and
  the reply has the expected shape, the improved prompt is still written to the page's text
  field, if the page has one; the recording flag, false by then, is not consulted. Only
  transcript fragments are discarded after a stop (claim C7).
\<close>

theorem improve_prompt_written_after_stop:
  assumes "textarea this = Some v" and "trim v \<noteq> []"
    and "geminiApiKey e = Some k" and "k \<noteq> []"
    and "\<not> isRecording this \<or> StopRecording \<in> set (duringStorage e)
           \<or> StopRecording \<in> set (duringFetch e)"
    and "geminiResponse e = Ok (Inr (Some (Candidate (Some c) # cs)))"
    and "firstPartText c = Inr t"
  shows "textarea (snd (executeImprovePrompt e this (Some parameters)))
           = Some (removeSurroundingQuotes t)
    \<and> \<not> isRecording (snd (executeImprovePrompt e this (Some parameters)))"
proof -
  define this1 where
    "this1 = showNotification this (0x23F3 # str '' Improving prompt...'') (str ''info'')"
  define this2 where "this2 = handleEvents this1 (duringStorage e)"
  define this3 where "this3 = this2\<lparr>effects := effects this2
        @ [Fetch (GenerateContent k improveSystemInstruction
             (improveUserPrompt (trim v) (map_of parameters (str ''user_idea''))))]\<rparr>"
  define this4 where "this4 = handleEvents this3 (duringFetch e)"
  have run: "executeImprovePrompt e this (Some parameters)
      = improveAfterFetch this4 (geminiResponse e)"
    using assms(1-4)
    by (simp add: executeImprovePrompt_def improveWithParameters_def Let_def this1_def this2_def
        this3_def this4_def)
  have "textarea this3 \<noteq> None" using assms(1) by (simp add: this3_def this2_def this1_def)
  then have "textarea this4 \<noteq> None" by (simp add: this4_def)
  then obtain w where w: "textarea this4 = Some w" by blast
  have stopped: "\<not> isRecording this4"
  proof (cases "StopRecording \<in> set (duringFetch e)")
    case True
    then show ?thesis by (simp add: this4_def handleEvents_stop)
  next
    case False
    have "\<not> isRecording this2"
    proof (cases "StopRecording \<in> set (duringStorage e)")
      case True
      then show ?thesis by (simp add: this2_def handleEvents_stop)
    next
      case no: False
      with False assms(5) have "\<not> isRecording this1" by (simp add: this1_def)
      then show ?thesis unfolding this2_def by (rule handleEvents_stays_stopped)
    qed
    then have "\<not> isRecording this3" by (simp add: this3_def)
    then show ?thesis unfolding this4_def by (rule handleEvents_stays_stopped)
  qed
  show ?thesis
    using improveAfterFetch_writes [OF w assms(6,7)] stopped by (simp add: run)
qed

theorem improve_prompt_written_after_stop_witness:
  "trim (str ''a blog'') \<noteq> []
   \<and> firstPartText (Content (Some [Part (Some (str '' \"Build a blog\" ''))])) = Inr (str ''\"Build a blog\"'')
   \<and> removeSurroundingQuotes (str ''\"Build a blog\"'') = str ''Build a blog''
   \<and> textarea (snd (executeImprovePrompt
        \<lparr>geminiApiKey = Some (str ''key''),
         geminiResponse = Ok (Inr (Some [Candidate (Some (Content (Some
           [Part (Some (str '' \"Build a blog\" ''))])))])),
         duringStorage = [], duringFetch = [Transcription (str ''hello'') False, StopRecording]\<rparr>
        \<lparr>isRecording = True, lastSDKText = [], lastRawSDKText = [], fullTranscript = [],
         previousSessionText = [], textarea = Some (str ''a blog''), effects = []\<rparr> (Some [])))
     = Some (str ''Build a blog'')
   \<and> \<not> isRecording (snd (executeImprovePrompt
        \<lparr>geminiApiKey = Some (str ''key''),
         geminiResponse = Ok (Inr (Some [Candidate (Some (Content (Some
           [Part (Some (str '' \"Build a blog\" ''))])))])),
         duringStorage = [], duringFetch = [Transcription (str ''hello'') False, StopRecording]\<rparr>
        \<lparr>isRecording = True, lastSDKText = [], lastRawSDKText = [], fullTranscript = [],
         previousSessionText = [], textarea = Some (str ''a blog''), effects = []\<rparr> (Some [])))"
proof -
  let ?c = "Content (Some [Part (Some (str '' \"Build a blog\" ''))])"
  let ?e = "\<lparr>geminiApiKey = Some (str ''key''),
         geminiResponse = Ok (Inr (Some [Candidate (Some ?c)])),
         duringStorage = [], duringFetch = [Transcription (str ''hello'') False, StopRecording]\<rparr>"
  let ?s = "\<lparr>isRecording = True, lastSDKText = [], lastRawSDKText = [], fullTranscript = [],
         previousSessionText = [], textarea = Some (str ''a blog''), effects = []\<rparr>"
  have h1: "textarea ?s = Some (str ''a blog'')" by simp
  have h2: "trim (str ''a blog'') \<noteq> []"
    by (simp add: str_def trim_def trimStart_def trimEnd_def isWhiteSpace_def)
  have h3: "geminiApiKey ?e = Some (str ''key'')" by simp
  have h4: "str ''key'' \<noteq> []" by (simp add: str_def)
  have h5: "\<not> isRecording ?s \<or> StopRecording \<in> set (duringStorage ?e)
      \<or> StopRecording \<in> set (duringFetch ?e)" by simp
  have h6: "geminiResponse ?e = Ok (Inr (Some (Candidate (Some ?c) # [])))" by simp
  have h7: "firstPartText ?c = Inr (str ''\"Build a blog\"'')"
    by (simp add: firstPartText_def str_def trim_def trimStart_def trimEnd_def isWhiteSpace_def)
  have q: "removeSurroundingQuotes (str ''\"Build a blog\"'') = str ''Build a blog''"
    by (simp add: removeSurroundingQuotes_def startsWith_def endsWith_def slice_def str_def)
  show ?thesis
    using improve_prompt_written_after_stop [OF h1 h2 h3 h4 h5 h6 h7, of "[]"] h2 h7 q
    by simp
qed

end
